theory Spec2Isabelle
  imports Complex_Main
begin

section \<open>JavaScript values\<close>

text \<open>
  The request body is what the JSON body parser produced, so every field the handler
  reads is an arbitrary JSON value, or \<open>undefined\<close> when the key is missing.
  A finite number is kept as the rational it denotes (\<open>-0\<close> and \<open>0\<close> are one value);
  \<open>NaN\<close> and the two infinities are separate values, because \<open>parseInt\<close> produces
  the first and a literal such as \<open>1e999\<close> the second.  Arithmetic on finite numbers is
  exact: the rounding of IEEE doubles (integers beyond \<open>2^53\<close>, exponent notation from
  \<open>1e21\<close> on) is outside this model.  A string is a list of characters of well-formed
  text; an object is the list of its keys and values, looked up from the front.
\<close>

datatype jsnum = Fin rat | NaN | PosInfinity | NegInfinity

datatype jsval =
    JUndefined
  | JNull
  | JBool bool
  | JNum jsnum
  | JStr string
  | JArr "jsval list"
  | JObj "(string \<times> jsval) list"

datatype js_error = SyntaxError | TypeError | ERR_HTTP_HEADERS_SENT

text \<open>\<open>ToBoolean\<close>: what \<open>if (x)\<close>, \<open>!x\<close> and \<open>x || y\<close> test.\<close>

fun num_truthy :: "jsnum \<Rightarrow> bool" where
  "num_truthy (Fin q) = (q \<noteq> 0)"
| "num_truthy NaN = False"
| "num_truthy PosInfinity = True"
| "num_truthy NegInfinity = True"

fun truthy :: "jsval \<Rightarrow> bool" where
  "truthy JUndefined = False"
| "truthy JNull = False"
| "truthy (JBool b) = b"
| "truthy (JNum n) = num_truthy n"
| "truthy (JStr s) = (s \<noteq> [])"
| "truthy (JArr xs) = True"
| "truthy (JObj kvs) = True"

text \<open>\<open>x || y\<close>\<close>

definition js_or :: "jsval \<Rightarrow> jsval \<Rightarrow> jsval" where
  "js_or x y = (if truthy x then x else y)"

text \<open>\<open>a < b\<close> on numbers: every comparison with \<open>NaN\<close> is false.\<close>

fun num_lt :: "jsnum \<Rightarrow> jsnum \<Rightarrow> bool" where
  "num_lt NaN b = False"
| "num_lt a NaN = False"
| "num_lt (Fin a) (Fin b) = (a < b)"
| "num_lt (Fin a) PosInfinity = True"
| "num_lt (Fin a) NegInfinity = False"
| "num_lt PosInfinity b = False"
| "num_lt NegInfinity NegInfinity = False"
| "num_lt NegInfinity b = True"

text \<open>\<open>a / b\<close> for a finite non-zero divisor \<open>b\<close> (here a power of ten).\<close>

fun num_div :: "jsnum \<Rightarrow> rat \<Rightarrow> jsnum" where
  "num_div (Fin a) b = Fin (a / b)"
| "num_div NaN b = NaN"
| "num_div PosInfinity b = (if 0 < b then PosInfinity else NegInfinity)"
| "num_div NegInfinity b = (if 0 < b then NegInfinity else PosInfinity)"

text \<open>\<open>term % 1 === 0\<close>: the number is finite and has no fractional part.\<close>

fun mod1_is_zero :: "jsnum \<Rightarrow> bool" where
  "mod1_is_zero (Fin q) = (of_int \<lfloor>q\<rfloor> = q)"
| "mod1_is_zero n = False"

text \<open>
  Reading a property of a parsed JSON value: on \<open>null\<close> (and \<open>undefined\<close>) the
  read raises a \<open>TypeError\<close>; on every other value it gives the value stored under
  the key, or \<open>undefined\<close>.  The handler only asks for \<open>address\<close>, \<open>scanHeight\<close>,
  \<open>maxHeight\<close> and \<open>publicKey\<close>, none of which a string, number, boolean or array has
  of its own.
\<close>

fun nullish :: "jsval \<Rightarrow> bool" where
  "nullish JUndefined = True"
| "nullish JNull = True"
| "nullish v = False"

fun get_prop :: "jsval \<Rightarrow> string \<Rightarrow> jsval" where
  "get_prop (JObj kvs) k = (case map_of kvs k of None \<Rightarrow> JUndefined | Some v \<Rightarrow> v)"
| "get_prop v k = JUndefined"

section \<open>\<open>parseInt\<close> and \<open>Number.prototype.toString\<close>\<close>

text \<open>
  \<open>parseInt(string)\<close> without a radix: leading white space is skipped, one sign is
  read, a \<open>0x\<close>/\<open>0X\<close> prefix selects radix 16, and the longest prefix of digits of
  the radix is the value; no digit at all gives \<open>NaN\<close> (here \<open>None\<close>).
\<close>

definition is_space :: "char \<Rightarrow> bool" where
  "is_space c = (c \<in> set [CHR '' '', CHR 0x09, CHR 0x0A, CHR 0x0B, CHR 0x0C, CHR 0x0D])"

definition digit_val :: "char \<Rightarrow> nat" where
  "digit_val c =
     (let n = of_char c :: nat in
      if 48 \<le> n \<and> n \<le> 57 then n - 48
      else if 97 \<le> n \<and> n \<le> 122 then n - 87
      else if 65 \<le> n \<and> n \<le> 90 then n - 55
      else 36)"

definition is_digit :: "nat \<Rightarrow> char \<Rightarrow> bool" where
  "is_digit radix c = (digit_val c < radix)"

fun digits_value :: "nat \<Rightarrow> nat \<Rightarrow> string \<Rightarrow> nat" where
  "digits_value radix acc [] = acc"
| "digits_value radix acc (c # cs) = digits_value radix (acc * radix + digit_val c) cs"

definition parseInt :: "string \<Rightarrow> int option" where
  "parseInt str =
     (let s = dropWhile is_space str;
          neg = (s \<noteq> [] \<and> hd s = CHR ''-'');
          s = (if s \<noteq> [] \<and> (hd s = CHR ''-'' \<or> hd s = CHR ''+'') then tl s else s);
          hex = (take 2 s = ''0x'' \<or> take 2 s = ''0X'');
          radix = (if hex then 16 else 10);
          s = (if hex then drop 2 s else s);
          z = takeWhile (is_digit radix) s
      in if z = [] then None
         else Some ((if neg then - 1 else 1) * int (digits_value radix 0 z)))"

text \<open>The decimal digits of a natural number, most significant first.\<close>

fun digits_of :: "nat \<Rightarrow> string" where
  "digits_of n =
     (if n < 10 then [''0123456789'' ! n]
      else digits_of (n div 10) @ [''0123456789'' ! (n mod 10)])"

declare digits_of.simps [simp del]

text \<open>\<open>parseInt(term).toString()\<close>\<close>

definition toString :: "int option \<Rightarrow> string" where
  "toString r =
     (case r of
        None \<Rightarrow> ''NaN''
      | Some n \<Rightarrow> if n < 0 then CHR ''-'' # digits_of (nat (- n)) else digits_of (nat n))"

definition as_number :: "int option \<Rightarrow> jsnum" where
  "as_number r = (case r of None \<Rightarrow> NaN | Some n \<Rightarrow> Fin (of_int n))"

section \<open>\<open>toNumber\<close>\<close>

text \<open>
  The function returns a number or \<open>false\<close>; \<open>None\<close> is \<open>false\<close>.  In the second
  test the left side of \<open>===\<close> is a string, so the test fails for every \<open>term\<close> that
  is not a string, whatever \<open>parseInt\<close> made of it.
\<close>

definition toNumber :: "jsval \<Rightarrow> jsnum option" where
  "toNumber term =
     (case term of
        JNum n \<Rightarrow> if mod1_is_zero n then Some n else None
      | JStr s \<Rightarrow> if toString (parseInt s) = s then Some (as_number (parseInt s)) else None
      | _ \<Rightarrow> None)"

text \<open>\<open>!x\<close> for a result of \<open>toNumber\<close>.\<close>

definition falsy :: "jsnum option \<Rightarrow> bool" where
  "falsy r = (case r of None \<Rightarrow> True | Some n \<Rightarrow> \<not> num_truthy n)"

section \<open>Configuration and collaborators\<close>

text \<open>
  \<open>config.json\<close> is not part of the sources; the handler reads four of its keys,
  which are taken as parameters.
\<close>

record config =
  coinDecimals :: nat
  maximumConfirmations :: int
  defaultConfirmations :: int
  coinUri :: string

text \<open>
  What the handler calls but does not define: the address decoder of the coin library
  (\<open>True\<close> when it returns, \<open>False\<close> when it throws), the random identifier source
  (the result of the \<open>n\<close>-th call of \<open>UUID()\<close>), and the two string conversions used
  to build the QR code link: the conversion that \<open>+\<close> applies to a value next to a
  string, and \<open>encodeURIComponent\<close>, which on well-formed text does not raise.
\<close>

record runtime =
  decodeAddress :: "jsval \<Rightarrow> bool"
  UUID :: "nat \<Rightarrow> string"
  concat_string :: "jsval \<Rightarrow> string"
  encodeURIComponent :: "jsval \<Rightarrow> string"

definition walletQueue :: string where
  "walletQueue = ''request.wallet''"

section \<open>Data\<close>

text \<open>The six keys of \<open>req.body\<close> that the handler reads.\<close>

record body =
  body_amount :: jsval
  body_callback :: jsval
  body_address :: jsval
  body_name :: jsval
  body_userDefined :: jsval
  body_confirmations :: jsval

text \<open>The object sent to the backend workers.\<close>

record walletRequest =
  wr_amount :: jsnum
  wr_address :: jsval
  wr_confirmations :: jsnum
  wr_callback :: jsval
  wr_callerData :: jsval

text \<open>The object handed to \<open>res.json\<close>.\<close>

record reply_json =
  res_sendToAddress :: jsval
  res_atomicAmount :: jsnum
  res_amount :: jsnum
  res_userDefined :: jsval
  res_startHeight :: jsval
  res_endHeight :: jsval
  res_confirmations :: jsnum
  res_callbackPublicKey :: jsval
  res_qrCode :: string

datatype response = Status nat | Json reply_json

text \<open>
  A message delivered on the reply queue.  \<open>content\<close> is the outcome of
  \<open>JSON.parse(message.content.toString())\<close>: \<open>None\<close> when the bytes are not JSON and
  the call raises a \<open>SyntaxError\<close>.
\<close>

record message =
  deliveryTag :: nat
  correlationId :: "string option"
  content :: "jsval option"

text \<open>One call of \<open>channel.sendToQueue\<close>.\<close>

record publish =
  p_queue :: string
  p_content :: walletRequest
  p_correlationId :: string
  p_replyTo :: string
  p_expiration :: nat

datatype broker_action = Ack message | Nack message

datatype log_entry = HTTPError string | HTTPRequest walletRequest

text \<open>
  A timer made by \<open>setTimeout\<close>; its handle is its position in the list of timers.
  It stops being pending when it fires or is cleared.
\<close>

record timer =
  t_req :: nat
  t_delay :: nat
  t_pending :: bool

text \<open>
  The callback given to \<open>channel.consume\<close> is a closure over the variables of one
  run of the handler.  \<open>cancelTimer\<close> is assigned after the callback is created, but
  before the handler returns, and the callback runs only later; the closure therefore
  holds the value the handler left in it.
\<close>

record consumer =
  c_req :: nat
  c_requestId :: string
  c_cancelTimer :: "nat option"
  c_walletRequest :: walletRequest
  c_amount :: jsnum
  c_name :: jsval

text \<open>
  The process: the broker handles of the start-up block, what has been attached to and
  sent through the channel, the timers, and what each HTTP request (numbered in order
  of arrival) has been answered.
\<close>

record state =
  ready :: bool
  replyQueue :: string
  consumers :: "consumer list"
  published :: "publish list"
  timers :: "timer list"
  responses :: "(nat \<times> response) list"
  requests :: nat
  uuids :: nat
  broker :: "broker_action list"
  logs :: "log_entry list"

definition boot :: state where
  "boot = \<lparr>ready = False, replyQueue = [], consumers = [], published = [], timers = [],
           responses = [], requests = 0, uuids = 0, broker = [], logs = []\<rparr>"

text \<open>
  The start-up block: connection, channel and the exclusive reply queue, whose name
  \<open>q\<close> the broker chooses.  Before it has finished, \<open>channel\<close> and \<open>replyQueue\<close>
  are \<open>undefined\<close>.
\<close>

definition connect :: "string \<Rightarrow> state \<Rightarrow> state" where
  "connect q s = s\<lparr>ready := True, replyQueue := q\<rparr>"

section \<open>The handler of \<open>POST /v1/new\<close>\<close>

text \<open>\<open>String.prototype.toLowerCase\<close> on the letters that matter for \<open>http\<close>.\<close>

definition toLowerCase :: "string \<Rightarrow> string" where
  "toLowerCase s =
     map (\<lambda>c. let n = of_char c :: nat in if 65 \<le> n \<and> n \<le> 90 then char_of (n + 32) else c) s"

text \<open>What the checks of the handler leave for the part that talks to the broker.\<close>

record validated =
  v_atomicAmount :: jsnum
  v_amount :: jsnum
  v_callback :: jsval
  v_address :: jsval
  v_name :: jsval
  v_callerData :: jsval
  v_requestConfirmations :: jsnum

text \<open>
  The checks end in one of three ways: a logged message and status 400, an exception
  that leaves the handler (it is thrown outside the \<open>try\<close> block), or the values to
  go on with.
\<close>

datatype verdict = Rejected string | Thrown js_error | Validated validated

text \<open>
  The confirmations part.  \<open>confirmations !== false\<close> holds for every number,
  \<open>NaN\<close> included.
\<close>

definition check_confirmations :: "config \<Rightarrow> jsnum option \<Rightarrow> string + jsnum" where
  "check_confirmations cfg confirmations =
     (case confirmations of
        Some c \<Rightarrow>
          if num_lt c (Fin 0) \<or> num_lt (Fin (of_int (maximumConfirmations cfg))) c
          then Inl ''Invalid confirmations requested''
          else Inr c
      | None \<Rightarrow> Inr (Fin (of_int (defaultConfirmations cfg))))"

text \<open>
  The callback part.  \<open>callback.substring\<close> exists on strings only: for any other
  truthy value the call raises a \<open>TypeError\<close>.
\<close>

definition check_callback :: "jsval \<Rightarrow> verdict option" where
  "check_callback callback =
     (if truthy callback then
        (case callback of
           JStr s \<Rightarrow>
             if toLowerCase (take 4 s) \<noteq> ''http''
             then Some (Rejected ''Invalid callback URL supplied'')
             else None
         | _ \<Rightarrow> Some (Thrown TypeError))
      else None)"

text \<open>
  The checks, in the order of the handler: the amount is usable at all (\<open>!atomicAmount\<close>
  holds for \<open>false\<close>, \<open>0\<close> and \<open>NaN\<close>), the address decodes, the callback, the
  sign of the amount, the confirmations.
\<close>

definition validate :: "runtime \<Rightarrow> config \<Rightarrow> body \<Rightarrow> verdict" where
  "validate rt cfg b =
     (let atomicAmount = toNumber (body_amount b);
          callback = js_or (body_callback b) (JBool False);
          address = js_or (body_address b) (JBool False);
          name = js_or (body_name b) (JBool False);
          callerData = js_or (body_userDefined b) (JObj []);
          confirmations = toNumber (body_confirmations b)
      in case atomicAmount of
           None \<Rightarrow> Rejected ''Invalid amount supplied''
         | Some a \<Rightarrow>
             if \<not> num_truthy a then Rejected ''Invalid amount supplied''
             else
               let amount = num_div a (10 ^ coinDecimals cfg) in
               if \<not> decodeAddress rt address then Rejected ''Invalid address supplied''
               else
                 (case check_callback callback of
                    Some out \<Rightarrow> out
                  | None \<Rightarrow>
                      if \<not> num_truthy a \<or> a = Fin 0 \<or> num_lt a (Fin 0)
                      then Rejected ''Invalid amount requested''
                      else
                        (case check_confirmations cfg confirmations of
                           Inl msg \<Rightarrow> Rejected msg
                         | Inr requestConfirmations \<Rightarrow>
                             Validated \<lparr>v_atomicAmount = a, v_amount = amount,
                               v_callback = callback, v_address = address, v_name = name,
                               v_callerData = callerData,
                               v_requestConfirmations = requestConfirmations\<rparr>)))"

text \<open>
  \<open>res.send\<close> and \<open>res.json\<close> on the response object of request \<open>k\<close>: a response
  that has been sent cannot be sent again, the second call raises.
\<close>

definition res_send :: "nat \<Rightarrow> response \<Rightarrow> state \<Rightarrow> js_error + state" where
  "res_send k r s =
     (case map_of (responses s) k of
        None \<Rightarrow> Inr (s\<lparr>responses := responses s @ [(k, r)]\<rparr>)
      | Some _ \<Rightarrow> Inl ERR_HTTP_HEADERS_SENT)"

definition logHTTPError :: "string \<Rightarrow> state \<Rightarrow> state" where
  "logHTTPError msg s = s\<lparr>logs := logs s @ [HTTPError msg]\<rparr>"

definition logHTTPRequest :: "walletRequest \<Rightarrow> state \<Rightarrow> state" where
  "logHTTPRequest w s = s\<lparr>logs := logs s @ [HTTPRequest w]\<rparr>"

definition messageTtl :: nat where
  "messageTtl = 2000"

definition clientTimeout :: nat where
  "clientTimeout = 5000"

text \<open>
  The \<open>try\<close> block, for request \<open>k\<close>.  While the start-up block has not finished,
  evaluating \<open>channel.consume(replyQueue.queue, ...)\<close> raises a \<open>TypeError\<close>, which the
  \<open>catch\<close> turns into status 500.  Otherwise a consumer is attached to the reply
  queue, the work item is sent, and the timer is started, in this order.
\<close>

definition dispatch :: "runtime \<Rightarrow> nat \<Rightarrow> validated \<Rightarrow> state \<Rightarrow> state" where
  "dispatch rt k v s =
     (let requestId = filter (\<lambda>c. c \<noteq> CHR ''-'') (UUID rt (uuids s));
          s = s\<lparr>uuids := Suc (uuids s)\<rparr>;
          walletRequest = \<lparr>wr_amount = v_atomicAmount v, wr_address = v_address v,
            wr_confirmations = v_requestConfirmations v, wr_callback = v_callback v,
            wr_callerData = v_callerData v\<rparr>
      in if \<not> ready s then
           (let s = logHTTPError ''TypeError'' s
            in s\<lparr>responses := responses s @ [(k, Status 500)]\<rparr>)
         else
           (let cancelTimer = length (timers s);
                s = s\<lparr>consumers := consumers s @
                      [\<lparr>c_req = k, c_requestId = requestId, c_cancelTimer = Some cancelTimer,
                        c_walletRequest = walletRequest, c_amount = v_amount v,
                        c_name = v_name v\<rparr>]\<rparr>;
                s = s\<lparr>published := published s @
                      [\<lparr>p_queue = walletQueue, p_content = walletRequest,
                        p_correlationId = requestId, p_replyTo = replyQueue s,
                        p_expiration = messageTtl\<rparr>]\<rparr>
            in s\<lparr>timers := timers s @
                  [\<lparr>t_req = k, t_delay = clientTimeout, t_pending = True\<rparr>]\<rparr>))"

text \<open>
  The whole handler.  Each run gets a fresh response object, so the first send on it
  cannot fail.  The second component is the exception that escaped, if any.
\<close>

definition post_new :: "runtime \<Rightarrow> config \<Rightarrow> body \<Rightarrow> state \<Rightarrow> state \<times> js_error option" where
  "post_new rt cfg b s =
     (let k = requests s;
          s = s\<lparr>requests := Suc k\<rparr>
      in case validate rt cfg b of
           Rejected msg \<Rightarrow>
             (let s = logHTTPError msg s
              in (s\<lparr>responses := responses s @ [(k, Status 400)]\<rparr>, None))
         | Thrown e \<Rightarrow> (s, Some e)
         | Validated v \<Rightarrow> (dispatch rt k v s, None))"

section \<open>The consumer callback and the timer callback\<close>

definition clearTimeout :: "nat option \<Rightarrow> state \<Rightarrow> state" where
  "clearTimeout handle s =
     (case handle of
        None \<Rightarrow> s
      | Some h \<Rightarrow>
          if h < length (timers s)
          then s\<lparr>timers := (timers s)[h := (timers s ! h)\<lparr>t_pending := False\<rparr>]\<rparr>
          else s)"

definition qrCode :: "runtime \<Rightarrow> config \<Rightarrow> jsval \<Rightarrow> jsnum \<Rightarrow> jsval \<Rightarrow> string" where
  "qrCode rt cfg sendToAddress atomicAmount name =
     ''https://chart.googleapis.com/chart?cht=qr&chs=256x256&chl='' @ coinUri cfg @ ''://'' @
     concat_string rt sendToAddress @ ''?amount='' @ concat_string rt (JNum atomicAmount) @
     (if truthy name then ''&name='' @ encodeURIComponent rt name else [])"

text \<open>
  The callback of consumer \<open>c\<close>, called with a message or with \<open>null\<close> (\<open>None\<close>).
  What was done before an exception stays done.
\<close>

definition on_message ::
  "runtime \<Rightarrow> config \<Rightarrow> consumer \<Rightarrow> message option \<Rightarrow> state \<Rightarrow> state \<times> js_error option" where
  "on_message rt cfg c message s =
     (case message of
        None \<Rightarrow> (s, None)
      | Some m \<Rightarrow>
          if correlationId m = Some (c_requestId c) then
            (case content m of
               None \<Rightarrow> (s, Some SyntaxError)
             | Some workerResponse \<Rightarrow>
                 if nullish workerResponse then (s, Some TypeError)
                 else
                   (let sendToAddress = get_prop workerResponse ''address'';
                        s = s\<lparr>broker := broker s @ [Ack m]\<rparr>;
                        s = clearTimeout (c_cancelTimer c) s;
                        s = logHTTPRequest (c_walletRequest c) s;
                        w = c_walletRequest c
                    in case res_send (c_req c) (Json
                              \<lparr>res_sendToAddress = sendToAddress,
                               res_atomicAmount = wr_amount w,
                               res_amount = c_amount c,
                               res_userDefined = wr_callerData w,
                               res_startHeight = get_prop workerResponse ''scanHeight'',
                               res_endHeight = get_prop workerResponse ''maxHeight'',
                               res_confirmations = wr_confirmations w,
                               res_callbackPublicKey = get_prop workerResponse ''publicKey'',
                               res_qrCode = qrCode rt cfg sendToAddress (wr_amount w)
                                              (c_name c)\<rparr>) s of
                         Inl e \<Rightarrow> (s, Some e)
                       | Inr s \<Rightarrow> (s, None)))
          else (s\<lparr>broker := broker s @ [Nack m]\<rparr>, None))"

text \<open>
  Timer \<open>h\<close> comes due.  A timer that was cleared, or has fired, does nothing;
  otherwise its callback logs the time-out and sends status 500.
\<close>

definition expire :: "nat \<Rightarrow> state \<Rightarrow> state \<times> js_error option" where
  "expire h s =
     (if h < length (timers s) \<and> t_pending (timers s ! h) then
        (let k = t_req (timers s ! h);
             s = s\<lparr>timers := (timers s)[h := (timers s ! h)\<lparr>t_pending := False\<rparr>]\<rparr>;
             s = logHTTPError ''RPC request timed out'' s
         in case res_send k (Status 500) s of
              Inl e \<Rightarrow> (s, Some e)
            | Inr s \<Rightarrow> (s, None))
      else (s, None))"

section \<open>The event loop\<close>

text \<open>
  Between two events the process is idle.  An event is an HTTP request reaching the
  handler, the broker delivering a message to the \<open>i\<close>-th consumer of the reply queue
  (the broker chooses the consumer), or a timer coming due.  Events may come in any
  order; an exception that escapes a callback is reported and the loop goes on.
\<close>

datatype event = Post body | Deliver nat "message option" | Expire nat

definition step :: "runtime \<Rightarrow> config \<Rightarrow> event \<Rightarrow> state \<Rightarrow> state \<times> js_error option" where
  "step rt cfg ev s =
     (case ev of
        Post b \<Rightarrow> post_new rt cfg b s
      | Deliver i m \<Rightarrow>
          if i < length (consumers s) then on_message rt cfg (consumers s ! i) m s
          else (s, None)
      | Expire h \<Rightarrow> expire h s)"

definition run :: "runtime \<Rightarrow> config \<Rightarrow> event list \<Rightarrow> state \<Rightarrow> state" where
  "run rt cfg evs s = fold (\<lambda>ev s. fst (step rt cfg ev s)) evs s"

text \<open>
  A life of the process: requests may arrive before the start-up block has finished
  (\<open>early\<close>); then the broker handles exist and the rest of the events follow.
\<close>

definition lifetime :: "runtime \<Rightarrow> config \<Rightarrow> event list \<Rightarrow> string \<Rightarrow> event list \<Rightarrow> state" where
  "lifetime rt cfg early q evs = run rt cfg evs (connect q (run rt cfg early boot))"

section \<open>Auxiliary notions\<close>

text \<open>A request is accepted when it passes every check of the handler.\<close>

definition accepted :: "runtime \<Rightarrow> config \<Rightarrow> event \<Rightarrow> bool" where
  "accepted rt cfg ev =
     (case ev of
        Post b \<Rightarrow> (case validate rt cfg b of Validated v \<Rightarrow> True | _ \<Rightarrow> False)
      | _ \<Rightarrow> False)"

text \<open>
  Before the start-up block has finished nothing is attached, sent or timed.
\<close>

definition idle :: "state \<Rightarrow> bool" where
  "idle s \<longleftrightarrow> \<not> ready s \<and> consumers s = [] \<and> published s = [] \<and> timers s = []"

text \<open>
  Afterwards the handler extends the three lists together: the \<open>i\<close>-th message sent,
  the \<open>i\<close>-th consumer and the \<open>i\<close>-th timer belong to the same request, and no two
  consumers belong to the same request.
\<close>

definition linked :: "string \<Rightarrow> state \<Rightarrow> bool" where
  "linked q s \<longleftrightarrow>
     ready s \<and> replyQueue s = q \<and>
     length (consumers s) = length (published s) \<and>
     length (timers s) = length (published s) \<and>
     (\<forall>i<length (published s).
        p_queue (published s ! i) = walletQueue \<and>
        p_replyTo (published s ! i) = q \<and>
        p_expiration (published s ! i) = messageTtl \<and>
        p_correlationId (published s ! i) = c_requestId (consumers s ! i) \<and>
        p_content (published s ! i) = c_walletRequest (consumers s ! i) \<and>
        c_cancelTimer (consumers s ! i) = Some i \<and>
        t_req (timers s ! i) = c_req (consumers s ! i) \<and>
        t_delay (timers s ! i) = clientTimeout \<and>
        c_req (consumers s ! i) < requests s) \<and>
     distinct (map c_req (consumers s))"

section \<open>A concrete installation\<close>

text \<open>
  One runtime, one configuration and a few requests and replies, on which the general
  statements below are instantiated.
\<close>

definition example_rt :: runtime where
  "example_rt =
     \<lparr>decodeAddress = (\<lambda>a. a = JStr ''valid123''),
      UUID = (\<lambda>n. ''7f3a-'' @ replicate (Suc n) (CHR ''b'')),
      concat_string = (\<lambda>v. case v of JStr s \<Rightarrow> s | _ \<Rightarrow> ''1000000''),
      encodeURIComponent = (\<lambda>v. case v of JStr s \<Rightarrow> s | _ \<Rightarrow> [])\<rparr>"

definition example_cfg :: config where
  "example_cfg =
     \<lparr>coinDecimals = 2, maximumConfirmations = 120, defaultConfirmations = 20,
      coinUri = ''zumcoin''\<rparr>"

definition example_body :: body where
  "example_body =
     \<lparr>body_amount = JNum (Fin 1000000), body_callback = JUndefined,
      body_address = JStr ''valid123'', body_name = JUndefined,
      body_userDefined = JUndefined, body_confirmations = JUndefined\<rparr>"

definition example_request :: walletRequest where
  "example_request =
     \<lparr>wr_amount = Fin 1000000, wr_address = JStr ''valid123'', wr_confirmations = Fin 20,
      wr_callback = JBool False, wr_callerData = JObj []\<rparr>"

definition example_consumer :: consumer where
  "example_consumer =
     \<lparr>c_req = 0, c_requestId = ''7f3ab'', c_cancelTimer = Some 0,
      c_walletRequest = example_request, c_amount = Fin 10000, c_name = JBool False\<rparr>"

definition example_publish :: publish where
  "example_publish =
     \<lparr>p_queue = ''request.wallet'', p_content = example_request, p_correlationId = ''7f3ab'',
      p_replyTo = ''amq.gen-1'', p_expiration = 2000\<rparr>"

definition example_reply :: message where
  "example_reply =
     \<lparr>deliveryTag = 1, correlationId = Some ''7f3ab'',
      content = Some (JObj [(''address'', JStr ''valid123''), (''scanHeight'', JNum (Fin 100)),
                            (''maxHeight'', JNum (Fin 200)), (''publicKey'', JStr ''pub'')])\<rparr>"

definition foreign_reply :: message where
  "foreign_reply = example_reply\<lparr>correlationId := Some ''0000''\<rparr>"

definition garbled_reply :: message where
  "garbled_reply = example_reply\<lparr>content := None\<rparr>"

text \<open>Requests that differ from the example in one or two keys.\<close>

definition negative_amount_body :: body where
  "negative_amount_body =
     example_body\<lparr>body_amount := JNum (Fin (- 5)), body_callback := JNum (Fin 123)\<rparr>"




definition excess_confirmations_body :: body where
  "excess_confirmations_body = example_body\<lparr>body_confirmations := JNum (Fin 999999)\<rparr>"

text \<open>The process after start-up; with one request waiting; with that request timed out.\<close>

definition started :: state where
  "started = connect ''amq.gen-1'' boot"

definition waiting :: state where
  "waiting = lifetime example_rt example_cfg [] ''amq.gen-1'' [Post example_body]"


section \<open>Evaluation\<close>

lemmas model_defs =
  lifetime_def run_def step_def post_new_def validate_def dispatch_def on_message_def
  expire_def clearTimeout_def res_send_def logHTTPError_def logHTTPRequest_def
  check_callback_def check_confirmations_def toNumber_def js_or_def connect_def boot_def
  qrCode_def walletQueue_def messageTtl_def clientTimeout_def Let_def

lemmas example_defs =
  example_rt_def example_cfg_def example_body_def example_request_def example_consumer_def
  example_publish_def example_reply_def started_def

lemma waiting_eq:
  "waiting =
     \<lparr>ready = True, replyQueue = ''amq.gen-1'', consumers = [example_consumer],
      published = [example_publish],
      timers = [\<lparr>t_req = 0, t_delay = 5000, t_pending = True\<rparr>],
      responses = [], requests = 1, uuids = 1, broker = [], logs = []\<rparr>"
  by (simp add: waiting_def model_defs example_defs)


lemma started_eq:
  "started = \<lparr>ready = True, replyQueue = ''amq.gen-1'', consumers = [], published = [],
     timers = [], responses = [], requests = 0, uuids = 0, broker = [], logs = []\<rparr>"
  by (simp add: started_def connect_def boot_def)

lemma validate_example:
  "validate example_rt example_cfg example_body =
     Validated \<lparr>v_atomicAmount = Fin 1000000, v_amount = Fin 10000, v_callback = JBool False,
       v_address = JStr ''valid123'', v_name = JBool False, v_callerData = JObj [],
       v_requestConfirmations = Fin 20\<rparr>"
  by (simp add: model_defs example_defs)

lemma post_example: "post_new example_rt example_cfg example_body started = (waiting, None)"
  by (simp add: waiting_def model_defs example_defs)

section \<open>The three ways out of the handler\<close>

lemma post_new_Rejected:
  "validate rt cfg b = Rejected msg \<Longrightarrow>
   post_new rt cfg b s =
     (s\<lparr>requests := Suc (requests s), logs := logs s @ [HTTPError msg],
        responses := responses s @ [(requests s, Status 400)]\<rparr>, None)"
  by (simp add: post_new_def logHTTPError_def Let_def)

lemma post_new_Thrown:
  "validate rt cfg b = Thrown e \<Longrightarrow>
   post_new rt cfg b s = (s\<lparr>requests := Suc (requests s)\<rparr>, Some e)"
  by (simp add: post_new_def Let_def)

lemma post_new_Validated:
  "validate rt cfg b = Validated v \<Longrightarrow>
   post_new rt cfg b s =
     (dispatch rt (requests s) v (s\<lparr>requests := Suc (requests s)\<rparr>), None)"
  by (simp add: post_new_def Let_def)

lemma published_dispatch:
  "ready s \<Longrightarrow>
   \<exists>p. published (dispatch rt k v s) = published s @ [p] \<and>
       wr_confirmations (p_content p) = v_requestConfirmations v"
  by (simp add: dispatch_def Let_def)

lemma check_callback_not_Validated [simp]: "check_callback c \<noteq> Some (Validated v)"
  by (simp add: check_callback_def split: jsval.splits)

lemma toNumber_undefined: "toNumber JUndefined = None"
  by (simp add: toNumber_def)



section \<open>Replies that match no request\<close>

text \<open>
  C1, as stated, fails.  The claim: a reply whose correlation id does not match the
  pending request is acknowledged and discarded, never negatively acknowledged.  One
  request is waiting for the reply with id \<open>7f3ab\<close>; the broker delivers a reply with
  id \<open>0000\<close> to its consumer.  The only broker action of the process is a negative
  acknowledgement of that reply: it goes back to the queue, as the comment in the
  \<open>else\<close> branch of the callback announces.
\<close>

theorem unmatched_reply_not_acked:
  "broker (lifetime example_rt example_cfg [] ''amq.gen-1''
             [Post example_body, Deliver 0 (Some foreign_reply)]) = [Nack foreign_reply]"
  by (simp add: model_defs example_defs foreign_reply_def)

text \<open>
  C1, amended: for every reply message whose correlation id differs from the request id
  of the consumer it is delivered to, the consumer negatively acknowledges the message
  and does nothing else: no response is sent, no timer is touched, the consumers and
  the messages sent stay as they are, and the callback does not raise.
\<close>

theorem unmatched_reply_is_nacked:
  "correlationId m \<noteq> Some (c_requestId c) \<Longrightarrow>
   on_message rt cfg c (Some m) s = (s\<lparr>broker := broker s @ [Nack m]\<rparr>, None)"
  by (simp add: on_message_def)

text \<open>The amended C1 on the waiting request and the foreign reply.\<close>

theorem unmatched_reply_is_nacked_witness:
  "correlationId foreign_reply \<noteq> Some (c_requestId example_consumer) \<and>
   on_message example_rt example_cfg example_consumer (Some foreign_reply) waiting =
     (waiting\<lparr>broker := [Nack foreign_reply]\<rparr>, None)"
proof -
  have h: "correlationId foreign_reply \<noteq> Some (c_requestId example_consumer)"
    by (simp add: example_defs foreign_reply_def)
  show ?thesis
    using h unmatched_reply_is_nacked [OF h, of example_rt example_cfg waiting]
    by (simp add: waiting_eq)
qed

section \<open>Replies that cannot be used\<close>

text \<open>
  C6 does not hold of the code.  The claim: the consumer callback never raises, a
  malformed reply is logged and discarded.  The reply that the waiting request expects
  arrives with a body that is not JSON: \<open>JSON.parse\<close> raises a \<open>SyntaxError\<close> inside
  the callback, which has no handler of its own (the \<open>try\<close> block of the handler has
  long been left); nothing is logged, the message is neither acknowledged nor rejected,
  and the state is unchanged.
\<close>

theorem garbled_reply_raises:
  "step example_rt example_cfg (Deliver 0 (Some garbled_reply)) waiting =
     (waiting, Some SyntaxError)"
  by (simp add: waiting_eq step_def on_message_def example_defs garbled_reply_def)

text \<open>
  In general the callback raises exactly when the reply carries the request id of its
  consumer and its body is not JSON, or is \<open>null\<close>, or the request has been answered.
\<close>

lemma on_message_raises_iff:
  "snd (on_message rt cfg c (Some m) s) \<noteq> None \<longleftrightarrow>
     correlationId m = Some (c_requestId c) \<and>
     (content m = None \<or> (\<exists>w. content m = Some w \<and> nullish w) \<or>
      map_of (responses s) (c_req c) \<noteq> None)"
  by (auto simp: on_message_def res_send_def clearTimeout_def logHTTPRequest_def Let_def
           split: option.splits)

section \<open>A reply after the time-out\<close>


text \<open>
  The same happens for every request that has been answered, by the time-out or by an
  earlier reply: a further reply with its id is acknowledged and logged, and the send
  raises.
\<close>

lemma answered_request_matches_again:
  assumes "correlationId m = Some (c_requestId c)" and "content m = Some w" and "\<not> nullish w"
    and "map_of (responses s) (c_req c) = Some r"
  shows "on_message rt cfg c (Some m) s =
           (logHTTPRequest (c_walletRequest c)
              (clearTimeout (c_cancelTimer c) (s\<lparr>broker := broker s @ [Ack m]\<rparr>)),
            Some ERR_HTTP_HEADERS_SENT)"
  using assms
  by (simp add: on_message_def res_send_def clearTimeout_def logHTTPRequest_def Let_def
           split: option.splits)

section \<open>The amount\<close>

text \<open>
  C4 does not hold of the code.  The claim: every request whose amount is not a strictly
  positive integer is answered with status 400, and nothing reaches the broker.  The
  handler tests the sign of the amount only after the address and the callback.  With
  amount \<open>-5\<close>, a valid address and the number \<open>123\<close> as callback, the first test
  (\<open>!atomicAmount\<close>) passes, the address decodes, and \<open>callback.substring\<close> raises a
  \<open>TypeError\<close> outside the \<open>try\<close> block: the handler ends without any response.
\<close>

theorem negative_amount_with_bad_callback_throws:
  "post_new example_rt example_cfg negative_amount_body started =
     (started\<lparr>requests := 1\<rparr>, Some TypeError)"
  by (simp add: model_defs example_defs negative_amount_body_def)

text \<open>
  What does hold for every such request: nothing is attached, sent, timed or
  acknowledged, and unless the handler raised, the response is status 400.  An amount
  that is zero, not integral or not a number is turned down by the first test, before
  anything else is looked at.
\<close>

lemma invalid_amount_no_broker_interaction:
  assumes "falsy (toNumber (body_amount b)) \<or>
           (\<exists>a. toNumber (body_amount b) = Some a \<and> num_lt a (Fin 0))"
  shows "consumers (fst (post_new rt cfg b s)) = consumers s \<and>
         published (fst (post_new rt cfg b s)) = published s \<and>
         timers (fst (post_new rt cfg b s)) = timers s \<and>
         broker (fst (post_new rt cfg b s)) = broker s \<and>
         (snd (post_new rt cfg b s) = None \<longrightarrow>
            responses (fst (post_new rt cfg b s)) = responses s @ [(requests s, Status 400)])"
proof -
  have "\<forall>v. validate rt cfg b \<noteq> Validated v"
    using assms
    by (auto simp: validate_def falsy_def Let_def split: option.splits)
  then show ?thesis
    by (cases "validate rt cfg b")
       (simp_all add: post_new_Rejected post_new_Thrown)
qed

lemma toNumber_integer_or_NaN:
  "toNumber x = Some a \<Longrightarrow> a = NaN \<or> (\<exists>n. a = Fin (of_int n))"
proof (cases x)
  case (JNum m)
  assume "toNumber x = Some a"
  with JNum have "mod1_is_zero a"
    by (simp add: toNumber_def split: if_splits)
  then obtain q where "a = Fin q" "of_int \<lfloor>q\<rfloor> = q"
    by (cases a) simp_all
  then show ?thesis
    by metis
next
  case (JStr str)
  assume "toNumber x = Some a"
  with JStr have "a = as_number (parseInt str)"
    by (simp add: toNumber_def split: if_splits)
  then show ?thesis
    by (simp add: as_number_def split: option.splits)
qed (simp_all add: toNumber_def)

text \<open>The amount of a request that passes the checks is a positive integer.\<close>

lemma validated_amount_is_positive_integer:
  assumes "validate rt cfg b = Validated v"
  shows "\<exists>n. 0 < n \<and> v_atomicAmount v = Fin (of_int n) \<and>
             toNumber (body_amount b) = Some (Fin (of_int n))"
proof -
  obtain a where a: "toNumber (body_amount b) = Some a" "num_truthy a" "\<not> num_lt a (Fin 0)"
      "v_atomicAmount v = a"
    using assms
    by (auto simp: validate_def check_confirmations_def Let_def
             split: option.splits if_splits sum.splits)
  from toNumber_integer_or_NaN [OF a(1)] a(2) obtain n where n: "a = Fin (of_int n)"
    by auto
  with a(2,3) have "0 < n"
    by simp
  with a n show ?thesis
    by auto
qed

lemma unusable_amount_rejected:
  "falsy (toNumber (body_amount b)) \<Longrightarrow>
   validate rt cfg b = Rejected ''Invalid amount supplied''"
  by (auto simp: validate_def falsy_def Let_def split: option.splits)

section \<open>The callback\<close>




section \<open>The confirmations\<close>

text \<open>
  C7, as stated, fails.  The claim: a confirmations value outside
  \<open>[0, maximumConfirmations]\<close> is replaced by the default.  With 999999 confirmations
  and a maximum of 120 the request is answered with status 400 and nothing is sent, as
  the comment above the test says.
\<close>

theorem excess_confirmations_not_defaulted:
  "post_new example_rt example_cfg excess_confirmations_body started =
     (started\<lparr>requests := 1, logs := [HTTPError ''Invalid confirmations requested''],
        responses := [(0, Status 400)]\<rparr>, None)"
  by (simp add: model_defs example_defs excess_confirmations_body_def)

text \<open>
  C7, amended: for every request that passes the checks of amount, address and callback
  (that is, the same request without confirmations is accepted), if the confirmations
  value reads as a number below 0 or above \<open>maximumConfirmations\<close>, the handler answers
  status 400 and sends nothing; if the confirmations are absent, the work item sent
  carries the default confirmation count.
\<close>

theorem confirmations_out_of_range_rejected:
  assumes "validate rt cfg (b\<lparr>body_confirmations := JUndefined\<rparr>) = Validated v"
    and "ready s"
  shows "(\<exists>p. published (fst (post_new rt cfg (b\<lparr>body_confirmations := JUndefined\<rparr>) s)) =
               published s @ [p] \<and>
             wr_confirmations (p_content p) = Fin (of_int (defaultConfirmations cfg))) \<and>
         (toNumber (body_confirmations b) = Some (Fin n) \<and>
            (n < 0 \<or> of_int (maximumConfirmations cfg) < n) \<longrightarrow>
          post_new rt cfg b s =
            (s\<lparr>requests := Suc (requests s),
               logs := logs s @ [HTTPError ''Invalid confirmations requested''],
               responses := responses s @ [(requests s, Status 400)]\<rparr>, None))"
proof (intro conjI impI)
  have "v_requestConfirmations v = Fin (of_int (defaultConfirmations cfg))"
    using assms(1)
    by (auto simp: validate_def toNumber_undefined check_confirmations_def Let_def
             split: option.splits if_splits)
  then show "\<exists>p. published (fst (post_new rt cfg (b\<lparr>body_confirmations := JUndefined\<rparr>) s)) =
               published s @ [p] \<and>
             wr_confirmations (p_content p) = Fin (of_int (defaultConfirmations cfg))"
    using published_dispatch [of "s\<lparr>requests := Suc (requests s)\<rparr>" rt "requests s" v] assms(2)
    by (simp add: post_new_Validated [OF assms(1)])
next
  assume a: "toNumber (body_confirmations b) = Some (Fin n) \<and>
            (n < 0 \<or> of_int (maximumConfirmations cfg) < n)"
  have "validate rt cfg b = Rejected ''Invalid confirmations requested''"
    using assms(1) a
    by (auto simp: validate_def toNumber_undefined check_confirmations_def Let_def
             split: option.splits if_splits)
  then show "post_new rt cfg b s =
            (s\<lparr>requests := Suc (requests s),
               logs := logs s @ [HTTPError ''Invalid confirmations requested''],
               responses := responses s @ [(requests s, Status 400)]\<rparr>, None)"
    by (rule post_new_Rejected)
qed

text \<open>The amended C7 on the example request, without and with 999999 confirmations.\<close>

theorem confirmations_out_of_range_rejected_witness:
  "validate example_rt example_cfg (excess_confirmations_body\<lparr>body_confirmations := JUndefined\<rparr>) =
     Validated \<lparr>v_atomicAmount = Fin 1000000, v_amount = Fin 10000, v_callback = JBool False,
       v_address = JStr ''valid123'', v_name = JBool False, v_callerData = JObj [],
       v_requestConfirmations = Fin 20\<rparr> \<and>
   ready started \<and>
   toNumber (body_confirmations excess_confirmations_body) = Some (Fin 999999) \<and>
   rat_of_int (maximumConfirmations example_cfg) < 999999 \<and>
   published (fst (post_new example_rt example_cfg
                     (excess_confirmations_body\<lparr>body_confirmations := JUndefined\<rparr>) started)) =
     [example_publish] \<and>
   wr_confirmations (p_content example_publish) = Fin (of_int (defaultConfirmations example_cfg)) \<and>
   post_new example_rt example_cfg excess_confirmations_body started =
     (started\<lparr>requests := 1, logs := [HTTPError ''Invalid confirmations requested''],
        responses := [(0, Status 400)]\<rparr>, None)"
proof -
  have h1: "validate example_rt example_cfg
              (excess_confirmations_body\<lparr>body_confirmations := JUndefined\<rparr>) =
            Validated \<lparr>v_atomicAmount = Fin 1000000, v_amount = Fin 10000,
              v_callback = JBool False, v_address = JStr ''valid123'', v_name = JBool False,
              v_callerData = JObj [], v_requestConfirmations = Fin 20\<rparr>"
    by (simp add: model_defs example_defs excess_confirmations_body_def)
  have h2: "ready started"
    by (simp add: started_eq)
  have h3: "toNumber (body_confirmations excess_confirmations_body) = Some (Fin 999999)"
    by (simp add: toNumber_def excess_confirmations_body_def)
  have h4: "rat_of_int (maximumConfirmations example_cfg) < 999999"
    by (simp add: example_defs)
  have e: "excess_confirmations_body\<lparr>body_confirmations := JUndefined\<rparr> = example_body"
    by (simp add: excess_confirmations_body_def example_defs)
  have p: "published (fst (post_new example_rt example_cfg example_body started)) =
             [example_publish]"
    by (simp add: post_example waiting_eq)
  have d: "wr_confirmations (p_content example_publish) =
             Fin (of_int (defaultConfirmations example_cfg))"
    by (simp add: example_defs)
  show ?thesis
    using h1 h2 h3 h4 p d
      confirmations_out_of_range_rejected [OF h1 h2, where n = 999999]
    by (simp add: started_eq e)
qed



section \<open>What stays true while the process runs\<close>

lemma linked_dispatch:
  assumes "linked q s"
  shows "linked q (dispatch rt (requests s) v (s\<lparr>requests := Suc (requests s)\<rparr>))"
proof -
  have old: "\<forall>c\<in>set (consumers s). c_req c < requests s"
    using assms by (auto simp: linked_def in_set_conv_nth)
  then have fresh: "requests s \<notin> c_req ` set (consumers s)"
    by auto
  show ?thesis
    using assms fresh
    by (auto simp: linked_def dispatch_def Let_def nth_append less_Suc_eq)
qed

lemma linked_post_new: "linked q s \<Longrightarrow> linked q (fst (post_new rt cfg b s))"
proof (cases "validate rt cfg b")
  case (Rejected msg)
  assume "linked q s"
  then show ?thesis
    by (auto simp: post_new_Rejected [OF Rejected] linked_def intro: less_SucI)
next
  case (Thrown e)
  assume "linked q s"
  then show ?thesis
    by (auto simp: post_new_Thrown [OF Thrown] linked_def intro: less_SucI)
next
  case (Validated v)
  assume "linked q s"
  then show ?thesis
    by (simp add: post_new_Validated [OF Validated] linked_dispatch)
qed

lemma linked_clearTimeout: "linked q s \<Longrightarrow> linked q (clearTimeout h s)"
  by (auto simp: linked_def clearTimeout_def nth_list_update split: option.splits)

lemma linked_on_message: "linked q s \<Longrightarrow> linked q (fst (on_message rt cfg c m s))"
proof -
  assume l: "linked q s"
  have a: "linked q (s\<lparr>broker := bs\<rparr>)" for bs
    using l by (simp add: linked_def)
  have b: "linked q (logHTTPRequest w (clearTimeout h (s\<lparr>broker := bs\<rparr>)))" for w h bs
    using linked_clearTimeout [OF a, of h bs]
    by (simp add: linked_def logHTTPRequest_def)
  have c: "linked q x \<Longrightarrow> res_send k r x = Inr y \<Longrightarrow> linked q y" for x y k r
    by (auto simp: res_send_def linked_def split: option.splits)
  show ?thesis
    using l a
    by (auto simp: on_message_def Let_def split: option.splits sum.splits intro: c [OF b] b)
qed

lemma linked_expire: "linked q s \<Longrightarrow> linked q (fst (expire h s))"
  by (auto simp: expire_def Let_def res_send_def logHTTPError_def linked_def nth_list_update
           split: option.splits)

lemma linked_step: "linked q s \<Longrightarrow> linked q (fst (step rt cfg ev s))"
  by (cases ev) (simp_all add: step_def linked_post_new linked_on_message linked_expire)

lemma linked_run: "linked q s \<Longrightarrow> linked q (run rt cfg evs s)"
  unfolding run_def by (induction evs arbitrary: s) (simp_all add: linked_step)

lemma idle_step: "idle s \<Longrightarrow> idle (fst (step rt cfg ev s))"
  by (cases ev)
     (auto simp: idle_def step_def post_new_def dispatch_def logHTTPError_def expire_def Let_def
           split: verdict.splits)

lemma idle_run: "idle s \<Longrightarrow> idle (run rt cfg evs s)"
  unfolding run_def by (induction evs arbitrary: s) (simp_all add: idle_step)

lemma linked_lifetime: "linked q (lifetime rt cfg early q evs)"
proof -
  have "idle (run rt cfg early boot)"
    by (rule idle_run) (simp add: idle_def boot_def)
  then have "linked q (connect q (run rt cfg early boot))"
    by (simp add: idle_def linked_def connect_def)
  then show ?thesis
    unfolding lifetime_def by (rule linked_run)
qed


lemma consumers_step:
  "ready s \<Longrightarrow>
   length (consumers (fst (step rt cfg ev s))) =
     length (consumers s) + (if accepted rt cfg ev then 1 else 0)"
  by (cases ev)
     (auto simp: step_def accepted_def post_new_def dispatch_def logHTTPError_def Let_def
                 on_message_def clearTimeout_def logHTTPRequest_def res_send_def expire_def
           split: verdict.splits option.splits)

lemma ready_step: "ready (fst (step rt cfg ev s)) = ready s"
  by (cases ev)
     (auto simp: step_def post_new_def dispatch_def logHTTPError_def Let_def
                 on_message_def clearTimeout_def logHTTPRequest_def res_send_def expire_def
           split: verdict.splits option.splits)

lemma consumers_run:
  "ready s \<Longrightarrow>
   length (consumers (run rt cfg evs s)) =
     length (consumers s) + length (filter (accepted rt cfg) evs)"
  unfolding run_def
  by (induction evs arbitrary: s) (simp_all add: consumers_step ready_step)

section \<open>Consumers of the reply queue\<close>

text \<open>
  C2, as stated, fails.  The claim: one consumer is attached at start-up, and no request
  attaches another.  After start-up the reply queue has no consumer; after two accepted
  requests it has two.
\<close>

theorem submit_attaches_consumer:
  "length (consumers (lifetime example_rt example_cfg [] ''amq.gen-1'' [])) = 0 \<and>
   length (consumers (lifetime example_rt example_cfg [] ''amq.gen-1''
                        [Post example_body, Post example_body])) = 2"
  by (simp add: model_defs example_defs)

text \<open>
  C2, amended: no consumer is attached at start-up; every request that passes the
  checks after start-up attaches one consumer to the reply queue, and nothing else
  attaches or detaches one.  So at any time the consumers are as many as the requests
  accepted since start-up.
\<close>

theorem one_consumer_per_accepted_request:
  "length (consumers (lifetime rt cfg early q evs)) = length (filter (accepted rt cfg) evs)"
proof -
  have "idle (run rt cfg early boot)"
    by (rule idle_run) (simp add: idle_def boot_def)
  then have "consumers (connect q (run rt cfg early boot)) = []"
    by (simp add: idle_def connect_def)
  moreover have "ready (connect q (run rt cfg early boot))"
    by (simp add: connect_def)
  ultimately show ?thesis
    by (simp add: lifetime_def consumers_run)
qed

text \<open>
  The amended C2 on a life with one request before start-up and, after it, two accepted
  requests, a time-out and a request that is turned down.
\<close>

theorem one_consumer_per_accepted_request_witness:
  "length (consumers (lifetime example_rt example_cfg [Post example_body] ''amq.gen-1''
                        [Post example_body, Expire 0, Post excess_confirmations_body,
                         Post example_body])) = 2"
proof -
  have w: "validate example_rt example_cfg excess_confirmations_body =
             Rejected ''Invalid confirmations requested''"
    by (simp add: model_defs example_defs excess_confirmations_body_def)
  show ?thesis
    using one_consumer_per_accepted_request
            [of example_rt example_cfg "[Post example_body]" "''amq.gen-1''"
                "[Post example_body, Expire 0, Post excess_confirmations_body,
                  Post example_body]"]
    by (simp add: accepted_def validate_example w)
qed

section \<open>What is sent to the work queue\<close>

text \<open>
  C8: every message sent carries the reply queue of the process as reply address and a
  time to live that is at most the delay of the timer of the same request.  (The
  message goes to the work queue, and the consumer with the same position holds the
  request id of the message and the handle of that timer.)
\<close>

theorem publish_carries_reply_queue_and_ttl:
  assumes "s = lifetime rt cfg early q evs" and "p \<in> set (published s)"
  shows "p_queue p = walletQueue \<and> replyQueue s = q \<and> p_replyTo p = replyQueue s \<and>
         (\<exists>i<length (timers s). i < length (consumers s) \<and>
            c_requestId (consumers s ! i) = p_correlationId p \<and>
            c_cancelTimer (consumers s ! i) = Some i \<and>
            p_expiration p \<le> t_delay (timers s ! i))"
proof -
  have l: "linked q s"
    unfolding assms(1) by (rule linked_lifetime)
  obtain i where i: "i < length (published s)" "p = published s ! i"
    using assms(2) by (auto simp: in_set_conv_nth)
  have "p_expiration p \<le> t_delay (timers s ! i)"
    using l i by (simp add: linked_def messageTtl_def clientTimeout_def)
  then show ?thesis
    using l i by (auto simp: linked_def)
qed

text \<open>C8 on the message of the waiting request.\<close>

theorem publish_carries_reply_queue_and_ttl_witness:
  "example_publish \<in> set (published waiting) \<and>
   p_queue example_publish = walletQueue \<and>
   replyQueue waiting = ''amq.gen-1'' \<and>
   p_replyTo example_publish = replyQueue waiting \<and>
   c_requestId (consumers waiting ! 0) = p_correlationId example_publish \<and>
   c_cancelTimer (consumers waiting ! 0) = Some 0 \<and>
   p_expiration example_publish \<le> t_delay (timers waiting ! 0)"
proof -
  have h: "example_publish \<in> set (published waiting)"
    by (simp add: waiting_eq)
  from publish_carries_reply_queue_and_ttl [OF waiting_def h]
  have "p_queue example_publish = walletQueue \<and> replyQueue waiting = ''amq.gen-1'' \<and>
        p_replyTo example_publish = replyQueue waiting"
    by simp
  then show ?thesis
    using h by (simp add: waiting_eq example_defs)
qed

section \<open>The reply that is waited for\<close>




end
